theory Spec2Isabelle
  imports Main "HOL-Library.Word" "HOL-Library.AList"
begin

section \<open>The jobs plugin of roadrunner: pipeline registry and dispatch (plugins/jobs/plugin.go)\<close>

text \<open>
  The plugin keeps three registries: \<open>jobConstructors\<close> (driver-type name to constructor),
  \<open>consumers\<close> (pipeline name to live driver) and \<open>pipelines\<close> (a \<open>sync.Map\<close> from
  name to pipeline). Drivers, constructors, queue items, the worker pool and the server are
  interfaces implemented elsewhere; a value of each is the collection of its methods, every
  method a function on the \<open>World\<close>: the store of job objects reachable through pointers
  together with everything the collaborators own (priority queue, brokers), of type \<open>'x\<close>.
  The code is modelled as run by one goroutine at a time; locks are therefore not shown.
\<close>

subsection \<open>Data\<close>

type_synonym addr = nat

text \<open>
  Modelled from the spec: \<open>pipeline.Pipeline\<close> is declared outside this file. The code
  reads it only through \<open>Name()\<close>, \<open>Driver()\<close> and \<open>Priority()\<close> and never
  writes it, so a pipeline is the value of these three (spec, section 3); priorities are
  64-bit integers.
\<close>

record Pipeline =
  Name :: string
  Driver :: string
  Priority :: "64 word"

text \<open>
  Modelled from the spec: \<open>structs.Job\<close> is declared outside this file. The code reads
  \<open>j.Options.Pipeline\<close> and reads and writes \<open>j.Options.Priority\<close>; identifier and
  payload stand for the remaining fields (spec, section 3).
\<close>

record Job =
  Job_Ident :: string
  Job_Payload :: string
  Options_Priority :: "64 word"
  Options_Pipeline :: string

record 'x World =
  heap :: "addr \<rightharpoonup> Job"
  ext :: 'x

datatype Op =
  jobs_plugin_serve | jobs_plugin_reset | jobs_plugin_push | jobs_plugin_declare | jobs_plugin_destroy

text \<open>
  Error values: the four \<open>errors.Errorf\<close> messages of the file with their arguments, an
  error produced by a collaborator, and \<open>errors.E(op, err)\<close>.
\<close>

datatype error =
    no_such_pipeline string
  | consumer_not_registered string
  | no_associated_driver string
  | pipe_register_failed string string
  | Foreign string
  | E Op error

text \<open>What a call does: return \<open>nil\<close>, return an error, or panic.\<close>

datatype ret = Ok | Err error | Panic string

text \<open>
  Modelled from the spec: the interfaces of the collaborators are declared outside this
  file. Their methods are those the code calls, with the results the code tests
  (spec, section 6); the event bus and the queue handed to a constructor are part of the
  world.
\<close>

record Payload =
  Context :: string
  Body :: string

record 'x Consumer =
  Consumer_Push :: "addr \<Rightarrow> 'x World \<Rightarrow> error option \<times> 'x World"
  Consumer_Register :: "Pipeline \<Rightarrow> 'x World \<Rightarrow> error option \<times> 'x World"
  Consumer_Run :: "Pipeline \<Rightarrow> 'x World \<Rightarrow> error option \<times> 'x World"
  Consumer_Stop :: "'x World \<Rightarrow> error option \<times> 'x World"
  Consumer_Pause :: "string \<Rightarrow> 'x World \<Rightarrow> 'x World"
  Consumer_Resume :: "string \<Rightarrow> 'x World \<Rightarrow> 'x World"

record 'x Constructor =
  JobsConstruct :: "string \<Rightarrow> 'x World \<Rightarrow> (error + 'x Consumer) \<times> 'x World"
  FromPipeline :: "Pipeline \<Rightarrow> 'x World \<Rightarrow> (error + 'x Consumer) \<times> 'x World"

text \<open>An entry of the priority queue, as the poller uses it.\<close>

record 'x Item =
  Item_ID :: string
  Item_Context :: "error + string"
  Item_Body :: string
  Item_Ack :: "'x World \<Rightarrow> error option \<times> 'x World"
  Item_Nack :: "'x World \<Rightarrow> error option \<times> 'x World"

record 'x Pool =
  Exec :: "Payload \<Rightarrow> 'x World \<Rightarrow> (error + Payload) \<times> 'x World"
  Pool_Destroy :: "'x World \<Rightarrow> 'x World"

record 'x Server =
  NewWorkerPool :: "'x World \<Rightarrow> (error + 'x Pool) \<times> 'x World"

datatype EventKind = EventPipeRun | EventDriverReady

text \<open>
  The journal lists, in order, what the plugin did to its collaborators: the records it
  wrote to \<open>p.log\<close> (\<open>Log_Failure\<close> when the record carries an error value), the
  events it pushed to \<open>p.events\<close>, and the methods it called on constructors, drivers,
  queue items, the server and the pool. \<open>Called_Push\<close> keeps the pointer and the job it
  pointed to at the moment of the call.
\<close>

datatype entry =
    Log_Error string string
  | Log_Failure string error
  | Log_Warn string string
  | Log_Info string
  | Log_Debug string
  | Events_Push EventKind string string
  | Called_JobsConstruct string string
  | Called_FromPipeline string Pipeline
  | Called_Register string Pipeline
  | Called_Run string Pipeline
  | Called_Stop string
  | Called_Pause string string
  | Called_Resume string string
  | Called_Push string addr Job
  | Called_NewWorkerPool
  | Called_Pool_Destroy
  | Called_Exec Payload
  | Called_Ack string
  | Called_Nack string

record 'x Plugin =
  NumPollers :: "8 word"
  workersPool :: "'x Pool option"
  server :: "'x Server"
  jobConstructors :: "string \<rightharpoonup> 'x Constructor"
  consumers :: "string \<rightharpoonup> 'x Consumer"
  pipelines :: "(string \<times> Pipeline) list"
  consume :: "string set"
  pollers :: nat
  world :: "'x World"
  journal :: "entry list"

definition PluginName :: string where
  "PluginName = ''jobs''"

definition pipelines_key :: string where
  "pipelines_key = ''pipelines''"

definition record_entry :: "entry \<Rightarrow> 'x Plugin \<Rightarrow> 'x Plugin" where
  "record_entry e p = p\<lparr>journal := journal p @ [e]\<rparr>"

text \<open>The pointers handed to a driver's \<open>Push\<close>, in the order of the calls.\<close>

definition pushed :: "entry list \<Rightarrow> addr list" where
  "pushed es = concat (map (\<lambda>e. case e of Called_Push _ a _ \<Rightarrow> [a] | _ \<Rightarrow> []) es)"

text \<open>The acknowledgements attempted on queue items, in the order of the calls.\<close>

definition acknowledgements :: "entry list \<Rightarrow> entry list" where
  "acknowledgements es =
     filter (\<lambda>e. case e of Called_Ack _ \<Rightarrow> True | Called_Nack _ \<Rightarrow> True | _ \<Rightarrow> False) es"

subsection \<open>Push and PushBatch\<close>

definition nil_dereference :: string where
  "nil_dereference = ''runtime error: invalid memory address or nil pointer dereference''"

definition nil_conversion :: string where
  "nil_conversion = ''interface conversion: interface {} is nil, not *pipeline.Pipeline''"

definition Push :: "addr \<Rightarrow> 'x Plugin \<Rightarrow> ret \<times> 'x Plugin" where
  "Push j p =
    (case heap (world p) j of
       None \<Rightarrow> (Panic nil_dereference, p)
     | Some job \<Rightarrow>
        (case map_of (pipelines p) (Options_Pipeline job) of
           None \<Rightarrow> (Err (E jobs_plugin_push (no_such_pipeline (Options_Pipeline job))), p)
         | Some ppl \<Rightarrow>
            (case consumers p (Name ppl) of
               None \<Rightarrow> (Err (E jobs_plugin_push (consumer_not_registered (Driver ppl))), p)
             | Some d \<Rightarrow>
                (let job' = (if Options_Priority job = 0
                             then job\<lparr>Options_Priority := Priority ppl\<rparr> else job);
                     p1 = (if Options_Priority job = 0
                           then p\<lparr>world := (world p)\<lparr>heap := (heap (world p))(j \<mapsto> job')\<rparr>\<rparr>
                           else p);
                     (err, w) = Consumer_Push d j (world p1);
                     p2 = record_entry (Called_Push (Name ppl) j job') (p1\<lparr>world := w\<rparr>)
                 in (case err of
                       Some e \<Rightarrow> (Err (E jobs_plugin_push e), p2)
                     | None \<Rightarrow> (Ok, p2))))))"

text \<open>
  \<open>PushBatch\<close> repeats the statements of \<open>Push\<close> inside its loop; \<open>PushBatch_body\<close>
  is one iteration, \<open>Ok\<close> meaning that the loop goes on.
\<close>

definition PushBatch_body :: "addr \<Rightarrow> 'x Plugin \<Rightarrow> ret \<times> 'x Plugin" where
  "PushBatch_body ji p =
    (case heap (world p) ji of
       None \<Rightarrow> (Panic nil_dereference, p)
     | Some job \<Rightarrow>
        (case map_of (pipelines p) (Options_Pipeline job) of
           None \<Rightarrow> (Err (E jobs_plugin_push (no_such_pipeline (Options_Pipeline job))), p)
         | Some ppl \<Rightarrow>
            (case consumers p (Name ppl) of
               None \<Rightarrow> (Err (E jobs_plugin_push (consumer_not_registered (Driver ppl))), p)
             | Some d \<Rightarrow>
                (let job' = (if Options_Priority job = 0
                             then job\<lparr>Options_Priority := Priority ppl\<rparr> else job);
                     p1 = (if Options_Priority job = 0
                           then p\<lparr>world := (world p)\<lparr>heap := (heap (world p))(ji \<mapsto> job')\<rparr>\<rparr>
                           else p);
                     (err, w) = Consumer_Push d ji (world p1);
                     p2 = record_entry (Called_Push (Name ppl) ji job') (p1\<lparr>world := w\<rparr>)
                 in (case err of
                       Some e \<Rightarrow> (Err (E jobs_plugin_push e), p2)
                     | None \<Rightarrow> (Ok, p2))))))"

fun PushBatch :: "addr list \<Rightarrow> 'x Plugin \<Rightarrow> ret \<times> 'x Plugin" where
  "PushBatch [] p = (Ok, p)"
| "PushBatch (ji # js) p =
    (case PushBatch_body ji p of
       (Ok, p') \<Rightarrow> PushBatch js p'
     | (r, p') \<Rightarrow> (r, p'))"

subsection \<open>Pause and Resume\<close>

text \<open>
  After a failed \<open>Load\<close> the error is logged and control falls through to the type
  assertion \<open>pipe.(*pipeline.Pipeline)\<close> on a nil interface, which panics. A missing
  consumer is logged and followed by \<open>return\<close>.
\<close>

fun Pause :: "string list \<Rightarrow> 'x Plugin \<Rightarrow> ret \<times> 'x Plugin" where
  "Pause [] p = (Ok, p)"
| "Pause (nm # rest) p =
    (case map_of (pipelines p) nm of
       None \<Rightarrow> (Panic nil_conversion, record_entry (Log_Error ''no such pipeline'' nm) p)
     | Some ppl \<Rightarrow>
        (case consumers p (Name ppl) of
           None \<Rightarrow> (Ok, record_entry (Log_Warn ''driver for the pipeline not found'' nm) p)
         | Some d \<Rightarrow>
            Pause rest (record_entry (Called_Pause (Name ppl) (Name ppl))
                          (p\<lparr>world := Consumer_Pause d (Name ppl) (world p)\<rparr>))))"

fun Resume :: "string list \<Rightarrow> 'x Plugin \<Rightarrow> ret \<times> 'x Plugin" where
  "Resume [] p = (Ok, p)"
| "Resume (nm # rest) p =
    (case map_of (pipelines p) nm of
       None \<Rightarrow> (Panic nil_conversion, record_entry (Log_Error ''no such pipeline'' nm) p)
     | Some ppl \<Rightarrow>
        (case consumers p (Name ppl) of
           None \<Rightarrow> (Ok, record_entry (Log_Warn ''driver for the pipeline not found'' nm) p)
         | Some d \<Rightarrow>
            Resume rest (record_entry (Called_Resume (Name ppl) (Name ppl))
                           (p\<lparr>world := Consumer_Resume d (Name ppl) (world p)\<rparr>))))"

subsection \<open>Declare, Destroy and List\<close>

definition Declare :: "Pipeline \<Rightarrow> 'x Plugin \<Rightarrow> ret \<times> 'x Plugin" where
  "Declare pipeline p =
    (let dr = Driver pipeline in
     if dr = [] then
       (Err (E jobs_plugin_declare (no_associated_driver (Name pipeline))), p)
     else
       (case jobConstructors p dr of
          Some c \<Rightarrow>
            (let (r, w) = FromPipeline c pipeline (world p);
                 p1 = record_entry (Called_FromPipeline dr pipeline) (p\<lparr>world := w\<rparr>)
             in (case r of
                   Inl err \<Rightarrow> (Err (E jobs_plugin_declare err), p1)
                 | Inr initializedDriver \<Rightarrow>
                    (let p2 = p1\<lparr>consumers := (consumers p1)(Name pipeline \<mapsto> initializedDriver)\<rparr>;
                         (err, w2) = Consumer_Register initializedDriver pipeline (world p2);
                         p3 = record_entry (Called_Register (Name pipeline) pipeline) (p2\<lparr>world := w2\<rparr>)
                     in (case err of
                           Some _ \<Rightarrow>
                             (Err (E jobs_plugin_declare
                                     (pipe_register_failed (Driver pipeline) (Name pipeline))), p3)
                         | None \<Rightarrow>
                             (if Name pipeline \<in> consume p3 then
                                (let (err, w3) = Consumer_Run initializedDriver pipeline (world p3);
                                     p4 = record_entry (Called_Run (Name pipeline) pipeline)
                                            (p3\<lparr>world := w3\<rparr>)
                                 in (case err of
                                       Some e \<Rightarrow> (Err (E jobs_plugin_declare e), p4)
                                     | None \<Rightarrow>
                                        (Ok, p4\<lparr>pipelines :=
                                                  AList.update (Name pipeline) pipeline (pipelines p4)\<rparr>)))
                              else
                                (Ok, p3\<lparr>pipelines :=
                                          AList.update (Name pipeline) pipeline (pipelines p3)\<rparr>))))))
        | None \<Rightarrow>
            (Ok, p\<lparr>pipelines := AList.update (Name pipeline) pipeline (pipelines p)\<rparr>)))"

definition Destroy :: "string \<Rightarrow> 'x Plugin \<Rightarrow> ret \<times> 'x Plugin" where
  "Destroy pp p =
    (case map_of (pipelines p) pp of
       None \<Rightarrow> (Err (E jobs_plugin_destroy (no_such_pipeline pp)), p)
     | Some ppl \<Rightarrow>
        (case consumers p (Name ppl) of
           None \<Rightarrow> (Err (E jobs_plugin_destroy (consumer_not_registered (Driver ppl))), p)
         | Some d \<Rightarrow>
            (let p1 = p\<lparr>consumers := (consumers p)(Name ppl := None)\<rparr>;
                 p2 = p1\<lparr>pipelines := AList.delete pp (pipelines p1)\<rparr>;
                 (err, w) = Consumer_Stop d (world p2);
                 p3 = record_entry (Called_Stop (Name ppl)) (p2\<lparr>world := w\<rparr>)
             in (case err of Some e \<Rightarrow> (Err e, p3) | None \<Rightarrow> (Ok, p3)))))"

definition List :: "'x Plugin \<Rightarrow> string list" where
  "List p = map fst (pipelines p)"

subsection \<open>Serve: the initial walk, the worker pool, the pollers\<close>

text \<open>
  \<open>errCh := make(chan error, 1)\<close>: a send succeeds while the buffer has room. Nothing
  receives from the channel before \<open>Serve\<close> has returned it, so a send on the full
  buffer never completes: \<open>None\<close>.
\<close>

definition send :: "error \<Rightarrow> error list \<Rightarrow> error list option" where
  "send e errCh = (if length errCh < 1 then Some (errCh @ [e]) else None)"

text \<open>
  \<open>sync.Map.Range\<close> calls the function on the entries one after the other, in an order
  of its own, until the function returns \<open>false\<close>; here the order is that of the list.
\<close>

fun Range :: "('k \<times> 'v \<Rightarrow> 'a \<Rightarrow> (bool \<times> 'a) option) \<Rightarrow> ('k \<times> 'v) list \<Rightarrow> 'a \<Rightarrow> 'a option" where
  "Range f [] st = Some st"
| "Range f (kv # kvs) st =
    (case f kv st of
       None \<Rightarrow> None
     | Some (True, st') \<Rightarrow> Range f kvs st'
     | Some (False, st') \<Rightarrow> Some st')"

text \<open>The function \<open>Serve\<close> hands to \<open>Range\<close>; the state is the plugin and \<open>errCh\<close>.\<close>

definition register_initial ::
  "string \<times> Pipeline \<Rightarrow> 'x Plugin \<times> error list \<Rightarrow> (bool \<times> 'x Plugin \<times> error list) option" where
  "register_initial kv st =
    (case kv of (name, pipe) \<Rightarrow> case st of (p, errCh) \<Rightarrow>
     (let dr = Driver pipe in
      case jobConstructors p dr of
        Some c \<Rightarrow>
          (let configKey = PluginName @ ''.'' @ pipelines_key @ ''.'' @ name;
               (r, w) = JobsConstruct c configKey (world p);
               p1 = record_entry (Called_JobsConstruct dr configKey) (p\<lparr>world := w\<rparr>)
           in (case r of
                 Inl err \<Rightarrow>
                   map_option (\<lambda>ch. (False, p1, ch)) (send (E jobs_plugin_serve err) errCh)
               | Inr initializedDriver \<Rightarrow>
                  (let p2 = p1\<lparr>consumers := (consumers p1)(name \<mapsto> initializedDriver)\<rparr>;
                       (err, w2) = Consumer_Register initializedDriver pipe (world p2);
                       p3 = record_entry (Called_Register name pipe) (p2\<lparr>world := w2\<rparr>)
                   in (case err of
                         Some _ \<Rightarrow>
                           map_option (\<lambda>ch. (False, p3, ch))
                             (send (E jobs_plugin_serve
                                      (pipe_register_failed (Driver pipe) (Name pipe))) errCh)
                       | None \<Rightarrow>
                           (if name \<in> consume p3 then
                              (let (err, w3) = Consumer_Run initializedDriver pipe (world p3);
                                   p4 = record_entry (Called_Run name pipe) (p3\<lparr>world := w3\<rparr>)
                               in (case err of
                                     Some e \<Rightarrow>
                                       map_option (\<lambda>ch. (False, p4, ch))
                                         (send (E jobs_plugin_serve e) errCh)
                                   | None \<Rightarrow>
                                       Some (True,
                                             record_entry
                                               (Events_Push EventPipeRun (Name pipe) (Driver pipe)) p4,
                                             errCh)))
                            else Some (True, p3, errCh))))))
      | None \<Rightarrow>
          Some (True,
                record_entry (Events_Push EventDriverReady (Name pipe) (Driver pipe)) p,
                errCh)))"

text \<open>
  \<open>Serve\<close> up to the start of the pollers. The result is the channel it returns, with
  what its buffer holds, and the plugin; \<open>None\<close> when \<open>Serve\<close> never returns.
  The poller goroutines it launches are counted in \<open>pollers\<close>; what each of them does is
  \<open>poller\<close> below.
\<close>

definition Serve :: "'x Plugin \<Rightarrow> (error list \<times> 'x Plugin) option" where
  "Serve p =
    (case Range register_initial (pipelines p) (p, []) of
       None \<Rightarrow> None
     | Some (p1, errCh) \<Rightarrow>
        (let (r, w) = NewWorkerPool (server p1) (world p1);
             p2 = record_entry Called_NewWorkerPool (p1\<lparr>world := w\<rparr>)
         in (case r of
               Inl err \<Rightarrow>
                 (case send err errCh of
                    None \<Rightarrow> None
                  | Some errCh' \<Rightarrow> Some (errCh', p2\<lparr>workersPool := None\<rparr>))
             | Inr pool \<Rightarrow>
                 Some (errCh, p2\<lparr>workersPool := Some pool, pollers := unat (NumPollers p2)\<rparr>))))"

text \<open>
  The body of the poller loop for one extracted job. \<open>Ok\<close>: the loop goes on to its next
  round. Calling \<open>Exec\<close> on a nil pool panics.
\<close>

definition dispatch :: "'x Item \<Rightarrow> 'x Plugin \<Rightarrow> ret \<times> 'x Plugin" where
  "dispatch job p =
    (case Item_Context job of
       Inl err \<Rightarrow>
         (let (errNack, w) = Item_Nack job (world p);
              p1 = record_entry (Called_Nack (Item_ID job)) (p\<lparr>world := w\<rparr>);
              p2 = (case errNack of
                      Some e \<Rightarrow> record_entry (Log_Failure ''negatively acknowledge failed'' e) p1
                    | None \<Rightarrow> p1)
          in (Ok, record_entry (Log_Failure ''job marshal context'' err) p2))
     | Inr ctx \<Rightarrow>
         (let exec = \<lparr>Context = ctx, Body = Item_Body job\<rparr> in
          case workersPool p of
            None \<Rightarrow> (Panic nil_dereference, p)
          | Some pool \<Rightarrow>
             (let (r, w) = Exec pool exec (world p);
                  p1 = record_entry (Called_Exec exec) (p\<lparr>world := w\<rparr>)
              in (case r of
                    Inl err \<Rightarrow>
                      (let (errNack, w2) = Item_Nack job (world p1);
                           p2 = record_entry (Called_Nack (Item_ID job)) (p1\<lparr>world := w2\<rparr>);
                           p3 = (case errNack of
                                   Some e \<Rightarrow>
                                     record_entry (Log_Failure ''negatively acknowledge failed'' e) p2
                                 | None \<Rightarrow> p2)
                       in (Ok, record_entry (Log_Failure ''job execute'' err) p3))
                  | Inr _ \<Rightarrow>
                      (let (errAck, w2) = Item_Ack job (world p1);
                           p2 = record_entry (Called_Ack (Item_ID job)) (p1\<lparr>world := w2\<rparr>)
                       in (Ok, case errAck of
                                 Some e \<Rightarrow> record_entry (Log_Failure ''acknowledge failed'' e) p2
                               | None \<Rightarrow> p2))))))"

text \<open>
  One poller. Each round of its loop either finds the stop signal or takes a job from the
  queue; the list gives what the rounds find, in order. When the list is used up the
  poller is waiting in \<open>ExtractMin\<close>.
\<close>

datatype 'x round = StopSignal | Extracted "'x Item"

datatype poller_state = Polling | Stopped | Crashed string

fun poller :: "'x round list \<Rightarrow> 'x Plugin \<Rightarrow> poller_state \<times> 'x Plugin" where
  "poller [] p = (Polling, p)"
| "poller (StopSignal # _) p =
    (Stopped, record_entry (Log_Debug ''------> job poller stopped <------'') p)"
| "poller (Extracted job # rounds) p =
    (case dispatch job p of
       (Ok, p') \<Rightarrow> poller rounds p'
     | (Err e, p') \<Rightarrow> poller rounds p'
     | (Panic msg, p') \<Rightarrow> (Crashed msg, p'))"

text \<open>
  \<open>Reset\<close> replaces the worker pool. It sets \<open>p.workersPool\<close> to nil before it asks
  the server for a new pool; when the server fails, the field stays nil and the error is
  returned. The pollers are not stopped by it.
\<close>

definition Reset :: "'x Plugin \<Rightarrow> ret \<times> 'x Plugin" where
  "Reset p =
    (let p0 = record_entry (Log_Info ''JOBS plugin got restart request. Restarting...'') p in
     case workersPool p0 of
       None \<Rightarrow> (Panic nil_dereference, p0)
     | Some old \<Rightarrow>
        (let p1 = record_entry Called_Pool_Destroy (p0\<lparr>world := Pool_Destroy old (world p0)\<rparr>);
             p2 = p1\<lparr>workersPool := None\<rparr>;
             (r, w) = NewWorkerPool (server p2) (world p2);
             p3 = record_entry Called_NewWorkerPool (p2\<lparr>world := w\<rparr>)
         in (case r of
               Inl err \<Rightarrow> (Err (E jobs_plugin_reset err), p3)
             | Inr pool \<Rightarrow>
                 (Ok, record_entry (Log_Info ''JOBS workers pool successfully restarted'')
                        (p3\<lparr>workersPool := Some pool\<rparr>)))))"

subsection \<open>A sample installation\<close>

text \<open>
  Concrete collaborators on which the operations can be run. The part of the world the
  collaborators own is the list of jobs the in-memory driver has put into the priority
  queue.
\<close>

definition ephemeral :: "Job list Consumer" where
  "ephemeral =
    \<lparr>Consumer_Push = (\<lambda>j w. case heap w j of
                          None \<Rightarrow> (Some (Foreign ''nil job''), w)
                        | Some job \<Rightarrow> (None, w\<lparr>ext := ext w @ [job]\<rparr>)),
     Consumer_Register = (\<lambda>_ w. (None, w)),
     Consumer_Run = (\<lambda>_ w. (None, w)),
     Consumer_Stop = (\<lambda>w. (None, w)),
     Consumer_Pause = (\<lambda>_ w. w),
     Consumer_Resume = (\<lambda>_ w. w)\<rparr>"

text \<open>Drivers that fail in \<open>Register\<close>, in \<open>Run\<close>, in \<open>Stop\<close> and in \<open>Push\<close>.\<close>

definition unprepared :: "Job list Consumer" where
  "unprepared = ephemeral\<lparr>Consumer_Register := (\<lambda>_ w. (Some (Foreign ''register failed''), w))\<rparr>"

definition restless :: "Job list Consumer" where
  "restless = ephemeral\<lparr>Consumer_Run := (\<lambda>_ w. (Some (Foreign ''run failed''), w))\<rparr>"

definition stubborn :: "Job list Consumer" where
  "stubborn = ephemeral\<lparr>Consumer_Stop := (\<lambda>w. (Some (Foreign ''stop failed''), w))\<rparr>"

definition full :: "Job list Consumer" where
  "full = ephemeral\<lparr>Consumer_Push := (\<lambda>_ w. (Some (Foreign ''queue full''), w))\<rparr>"

definition constructor_of :: "Job list Consumer \<Rightarrow> Job list Constructor" where
  "constructor_of d = \<lparr>JobsConstruct = (\<lambda>_ w. (Inr d, w)), FromPipeline = (\<lambda>_ w. (Inr d, w))\<rparr>"

definition broken_constructor :: "Job list Constructor" where
  "broken_constructor =
    \<lparr>JobsConstruct = (\<lambda>_ w. (Inl (Foreign ''no broker''), w)),
     FromPipeline = (\<lambda>_ w. (Inl (Foreign ''no broker''), w))\<rparr>"

text \<open>
  Workers that refuse an empty body and leave the payload they last saw as an object at
  address 9 of the store.
\<close>

definition seen :: "Payload \<Rightarrow> Job" where
  "seen pl = \<lparr>Job_Ident = ''seen'', Job_Payload = Body pl, Options_Priority = 0,
              Options_Pipeline = Context pl\<rparr>"

definition workers :: "Job list Pool" where
  "workers =
    \<lparr>Exec = (\<lambda>pl w. (if Body pl = [] then Inl (Foreign ''empty body'') else Inr pl,
                       w\<lparr>heap := (heap w)(9 \<mapsto> seen pl)\<rparr>)),
     Pool_Destroy = (\<lambda>w. w\<lparr>heap := (heap w)(9 := None)\<rparr>)\<rparr>"

definition no_pool_server :: "Job list Server" where
  "no_pool_server = \<lparr>NewWorkerPool = (\<lambda>w. (Inl (Foreign ''no workers''), w))\<rparr>"

definition pool_server :: "Job list Server" where
  "pool_server = \<lparr>NewWorkerPool = (\<lambda>w. (Inr workers, w))\<rparr>"

definition pipe_p1 :: Pipeline where
  "pipe_p1 = \<lparr>Name = ''p1'', Driver = ''ephemeral'', Priority = 7\<rparr>"

definition pipe_p2 :: Pipeline where
  "pipe_p2 = \<lparr>Name = ''p2'', Driver = ''stubborn'', Priority = 4\<rparr>"

definition pipe_idle :: Pipeline where
  "pipe_idle = \<lparr>Name = ''idle'', Driver = ''amqp'', Priority = 3\<rparr>"

definition job_a :: Job where
  "job_a = \<lparr>Job_Ident = ''a'', Job_Payload = ''{}'', Options_Priority = 0, Options_Pipeline = ''p1''\<rparr>"

definition job_b :: Job where
  "job_b = \<lparr>Job_Ident = ''b'', Job_Payload = ''{}'', Options_Priority = 2, Options_Pipeline = ''missing''\<rparr>"

definition job_c :: Job where
  "job_c = \<lparr>Job_Ident = ''c'', Job_Payload = ''{}'', Options_Priority = 5, Options_Pipeline = ''idle''\<rparr>"

definition job_d :: Job where
  "job_d = \<lparr>Job_Ident = ''d'', Job_Payload = ''{}'', Options_Priority = 9, Options_Pipeline = ''p1''\<rparr>"

definition job_e :: Job where
  "job_e = \<lparr>Job_Ident = ''e'', Job_Payload = ''{}'', Options_Priority = 0, Options_Pipeline = ''p2''\<rparr>"

text \<open>Before any pipeline exists, and with three pipelines of which two have a driver.\<close>

definition fresh :: "Job list Plugin" where
  "fresh =
    \<lparr>NumPollers = 2, workersPool = None, server = pool_server,
     jobConstructors = [''ephemeral'' \<mapsto> constructor_of ephemeral,
                        ''unprepared'' \<mapsto> constructor_of unprepared,
                        ''restless'' \<mapsto> constructor_of restless,
                        ''stubborn'' \<mapsto> constructor_of stubborn,
                        ''broken'' \<mapsto> broken_constructor],
     consumers = Map.empty, pipelines = [], consume = {''p3''}, pollers = 0,
     world = \<lparr>heap = [1 \<mapsto> job_a, 2 \<mapsto> job_b, 3 \<mapsto> job_c, 4 \<mapsto> job_d, 5 \<mapsto> job_e], ext = []\<rparr>,
     journal = []\<rparr>"

definition running :: "Job list Plugin" where
  "running = fresh\<lparr>consumers := [''p1'' \<mapsto> ephemeral, ''p2'' \<mapsto> stubborn],
                   pipelines := [(''p1'', pipe_p1), (''p2'', pipe_p2), (''idle'', pipe_idle)]\<rparr>"

text \<open>
  The second installation with a driver for \<open>p1\<close> that refuses every job, and the second
  installation after job 4 has been pushed.
\<close>

definition congested :: "Job list Plugin" where
  "congested = running\<lparr>consumers := [''p1'' \<mapsto> full, ''p2'' \<mapsto> stubborn]\<rparr>"

definition after_d :: "Job list Plugin" where
  "after_d = running\<lparr>world := (world running)\<lparr>ext := [job_d]\<rparr>,
                      journal := [Called_Push ''p1'' 4 job_d]\<rparr>"

text \<open>
  A configuration to serve: a pipeline whose driver type is not registered, one whose
  constructor fails, and one that can be built.
\<close>

definition pipe_lazy :: Pipeline where
  "pipe_lazy = \<lparr>Name = ''lazy'', Driver = ''amqp'', Priority = 1\<rparr>"

definition pipe_p4 :: Pipeline where
  "pipe_p4 = \<lparr>Name = ''p4'', Driver = ''broken'', Priority = 1\<rparr>"

definition startup :: "Job list Plugin" where
  "startup = fresh\<lparr>pipelines := [(''lazy'', pipe_lazy), (''p4'', pipe_p4), (''p1'', pipe_p1)]\<rparr>"

text \<open>
  Queue items whose acknowledgements act on the queue: \<open>Nack\<close> puts a job back at its
  end, \<open>Ack\<close> takes the first job out. One item runs but its \<open>Ack\<close> reports a
  failure, one has a context that cannot be resolved, and one is refused by the workers and
  its \<open>Nack\<close> reports a failure. Then the second installation with job 4 in the queue
  and a worker pool in place, and the same with a server that cannot supply a pool.
\<close>

definition item_ok :: "Job list Item" where
  "item_ok = \<lparr>Item_ID = ''ok'', Item_Context = Inr ''{}'', Item_Body = ''work'',
               Item_Ack = (\<lambda>w. (Some (Foreign ''ack lost''), w\<lparr>ext := tl (ext w)\<rparr>)),
               Item_Nack = (\<lambda>w. (None, w\<lparr>ext := ext w @ [job_a]\<rparr>))\<rparr>"

definition item_no_context :: "Job list Item" where
  "item_no_context = item_ok\<lparr>Item_ID := ''no-context'', Item_Context := Inl (Foreign ''marshal'')\<rparr>"

definition item_empty :: "Job list Item" where
  "item_empty = item_ok\<lparr>Item_ID := ''empty'', Item_Body := [],
                         Item_Nack := (\<lambda>w. (Some (Foreign ''nack lost''), w\<lparr>ext := ext w @ [job_e]\<rparr>))\<rparr>"

definition serving :: "Job list Plugin" where
  "serving = after_d\<lparr>workersPool := Some workers, pollers := 2\<rparr>"

definition unsupplied :: "Job list Plugin" where
  "unsupplied = serving\<lparr>server := no_pool_server\<rparr>"

text \<open>What \<open>Reset\<close> makes of the latter: no pool, and the pollers still running.\<close>

definition stalled :: "Job list Plugin" where
  "stalled = unsupplied
     \<lparr>workersPool := None,
      world := (world unsupplied)\<lparr>heap := (heap (world unsupplied))(9 := None)\<rparr>,
      journal := journal unsupplied @
        [Log_Info ''JOBS plugin got restart request. Restarting...'',
         Called_Pool_Destroy, Called_NewWorkerPool]\<rparr>"

lemmas samples = ephemeral_def unprepared_def restless_def stubborn_def full_def constructor_of_def
  broken_constructor_def workers_def no_pool_server_def pool_server_def pipe_p1_def pipe_p2_def
  pipe_idle_def job_a_def job_b_def job_c_def job_d_def job_e_def fresh_def running_def


section \<open>Properties\<close>

subsection \<open>Declare\<close>

text \<open>
  Claim C1, as the code has it. When the driver-type name of the pipeline is not empty and
  no constructor is registered for it, \<open>Declare\<close> skips the construction of a driver and
  falls through to the store: the pipeline is saved under its name and is listed by
  \<open>List\<close> afterwards, no consumer entry is created, no collaborator is touched, and the
  call returns \<open>nil\<close>.
\<close>

theorem Declare_unregistered_driver:
  assumes "Driver pipeline \<noteq> []" and "jobConstructors p (Driver pipeline) = None"
  shows "Declare pipeline p = (Ok, p\<lparr>pipelines := AList.update (Name pipeline) pipeline (pipelines p)\<rparr>)
       \<and> Name pipeline \<in> set (List (snd (Declare pipeline p)))
       \<and> map_of (pipelines (snd (Declare pipeline p))) (Name pipeline) = Some pipeline
       \<and> consumers (snd (Declare pipeline p)) = consumers p
       \<and> world (snd (Declare pipeline p)) = world p
       \<and> journal (snd (Declare pipeline p)) = journal p"
  using assms by (simp add: Declare_def List_def update_conv' update_keys)

theorem Declare_unregistered_driver_witness:
  "Declare pipe_idle fresh = (Ok, fresh\<lparr>pipelines := [(''idle'', pipe_idle)]\<rparr>)
   \<and> ''idle'' \<in> set (List (snd (Declare pipe_idle fresh)))
   \<and> consumers (snd (Declare pipe_idle fresh)) = Map.empty"
proof -
  have d: "Driver pipe_idle \<noteq> []" by (simp add: pipe_idle_def)
  have c: "jobConstructors fresh (Driver pipe_idle) = None" by (simp add: fresh_def pipe_idle_def)
  from Declare_unregistered_driver[OF d c] show ?thesis
    by (simp add: fresh_def pipe_idle_def List_def)
qed

text \<open>
  The claim as the specification words it (nothing stored, an error returned) fails: with
  no constructor for the type \<open>amqp\<close>, declaring the pipeline \<open>idle\<close> on a plugin
  without pipelines returns \<open>nil\<close> and \<open>List\<close> then holds \<open>idle\<close>.
\<close>

theorem Declare_unregistered_driver_counterexample:
  "Driver pipe_idle \<noteq> [] \<and> jobConstructors fresh (Driver pipe_idle) = None
   \<and> fst (Declare pipe_idle fresh) = Ok
   \<and> List (snd (Declare pipe_idle fresh)) = [''idle'']"
  by (simp add: Declare_def List_def samples)

text \<open>
  Where every pipeline is stored under its own name and every consumer has a pipeline of
  its name, this stays so after a \<open>Declare\<close> that returns \<open>nil\<close> and after any
  \<open>Destroy\<close>.
\<close>

lemma Declare_Ok_keeps_registries:
  assumes names: "\<forall>k ppl. map_of (pipelines p) k = Some ppl \<longrightarrow> Name ppl = k"
    and live: "\<forall>k d. consumers p k = Some d \<longrightarrow> map_of (pipelines p) k \<noteq> None"
    and ok: "Declare pl p = (Ok, p')"
  shows "(\<forall>k ppl. map_of (pipelines p') k = Some ppl \<longrightarrow> Name ppl = k)
       \<and> (\<forall>k d. consumers p' k = Some d \<longrightarrow> map_of (pipelines p') k \<noteq> None)"
  using assms
  by (auto simp add: Declare_def record_entry_def Let_def update_conv'
      split: if_splits option.splits sum.splits prod.splits)

lemma Destroy_keeps_registries:
  assumes names: "\<forall>k ppl. map_of (pipelines p) k = Some ppl \<longrightarrow> Name ppl = k"
    and live: "\<forall>k d. consumers p k = Some d \<longrightarrow> map_of (pipelines p) k \<noteq> None"
    and res: "Destroy pp p = (r, p')"
  shows "(\<forall>k ppl. map_of (pipelines p') k = Some ppl \<longrightarrow> Name ppl = k)
       \<and> (\<forall>k d. consumers p' k = Some d \<longrightarrow> map_of (pipelines p') k \<noteq> None)"
  using assms
  by (auto simp add: Destroy_def record_entry_def Let_def delete_conv'
      split: if_splits option.splits sum.splits prod.splits)

text \<open>
  Claim C3 at a failing input. \<open>Declare\<close> stores the new driver in \<open>consumers\<close> before
  it calls \<open>Register\<close> and \<open>Run\<close>, and returns on their failure without taking it out
  again. Starting without pipelines and consumers, a \<open>Declare\<close> whose \<open>Register\<close>
  fails, and one whose \<open>Run\<close> fails, each leave a consumer under \<open>p3\<close> while no
  pipeline \<open>p3\<close> exists; \<open>Destroy\<close> then refuses the name, so the entry stays.
\<close>

theorem Declare_failure_leaves_consumer:
  "(let (r, p') = Declare \<lparr>Name = ''p3'', Driver = ''unprepared'', Priority = 1\<rparr> fresh in
      r = Err (E jobs_plugin_declare (pipe_register_failed ''unprepared'' ''p3''))
      \<and> consumers p' ''p3'' = Some unprepared \<and> map_of (pipelines p') ''p3'' = None
      \<and> List p' = []
      \<and> fst (Destroy ''p3'' p') = Err (E jobs_plugin_destroy (no_such_pipeline ''p3'')))
 \<and> (let (r, p') = Declare \<lparr>Name = ''p3'', Driver = ''restless'', Priority = 1\<rparr> fresh in
      r = Err (E jobs_plugin_declare (Foreign ''run failed''))
      \<and> consumers p' ''p3'' = Some restless \<and> map_of (pipelines p') ''p3'' = None
      \<and> List p' = []
      \<and> fst (Destroy ''p3'' p') = Err (E jobs_plugin_destroy (no_such_pipeline ''p3'')))"
  by (simp add: Declare_def Destroy_def List_def record_entry_def fresh_def constructor_of_def
      unprepared_def restless_def ephemeral_def Let_def)

subsection \<open>Pause and Resume\<close>

text \<open>
  Claim C2 at failing inputs. With the pipelines \<open>p1\<close> (live driver) and \<open>idle\<close> (no
  driver) registered: for the names \<open>missing, p1\<close> both operations log the failed lookup
  and then panic in the type assertion; for \<open>idle, p1\<close> they log the missing driver and
  return. In neither case is the driver of \<open>p1\<close> called, although it is when \<open>p1\<close> is
  passed alone.
\<close>

theorem Pause_Resume_lookup_failure:
  "Pause [''missing'', ''p1''] running
     = (Panic nil_conversion, record_entry (Log_Error ''no such pipeline'' ''missing'') running)
 \<and> Pause [''idle'', ''p1''] running
     = (Ok, record_entry (Log_Warn ''driver for the pipeline not found'' ''idle'') running)
 \<and> Resume [''missing'', ''p1''] running
     = (Panic nil_conversion, record_entry (Log_Error ''no such pipeline'' ''missing'') running)
 \<and> Resume [''idle'', ''p1''] running
     = (Ok, record_entry (Log_Warn ''driver for the pipeline not found'' ''idle'') running)
 \<and> Pause [''p1''] running = (Ok, record_entry (Called_Pause ''p1'' ''p1'') running)
 \<and> Resume [''p1''] running = (Ok, record_entry (Called_Resume ''p1'' ''p1'') running)"
  by (simp add: record_entry_def running_def fresh_def pipe_p1_def pipe_p2_def pipe_idle_def ephemeral_def)

subsection \<open>Destroy\<close>

lemma Destroy_absent:
  "map_of (pipelines p) pp = None \<Longrightarrow>
     Destroy pp p = (Err (E jobs_plugin_destroy (no_such_pipeline pp)), p)"
  by (simp add: Destroy_def)

lemma Push_absent:
  "heap (world p) j = Some job \<Longrightarrow> map_of (pipelines p) (Options_Pipeline job) = None \<Longrightarrow>
     Push j p = (Err (E jobs_plugin_push (no_such_pipeline (Options_Pipeline job))), p)"
  by (simp add: Push_def)

lemma Destroy_present:
  assumes "map_of (pipelines p) pp = Some ppl" and "consumers p (Name ppl) = Some d"
  shows "Destroy pp p =
          (case fst (Consumer_Stop d (world p)) of None \<Rightarrow> Ok | Some e \<Rightarrow> Err e,
           p\<lparr>consumers := (consumers p)(Name ppl := None),
             pipelines := AList.delete pp (pipelines p),
             world := snd (Consumer_Stop d (world p)),
             journal := journal p @ [Called_Stop (Name ppl)]\<rparr>)"
  using assms
  by (simp add: Destroy_def record_entry_def Let_def split: prod.splits option.splits)

text \<open>
  Claim C6. \<open>Destroy\<close> of a name absent from the pipeline registry fails with "no such
  pipeline", and of a pipeline without a live driver with "consumer not registered", both
  leaving the plugin as it was. Otherwise it removes the consumer entry and the pipeline
  entry and returns what the driver's \<open>Stop\<close> returned, the removals standing whatever
  that is; in the plugin it leaves, a second \<open>Destroy\<close> of the name fails with "no such
  pipeline", and so does \<open>Push\<close> of any job addressed to it.
\<close>

theorem Destroy_removes_both:
  "(map_of (pipelines p) pp = None \<longrightarrow>
      Destroy pp p = (Err (E jobs_plugin_destroy (no_such_pipeline pp)), p))
 \<and> (\<forall>ppl. map_of (pipelines p) pp = Some ppl \<and> consumers p (Name ppl) = None \<longrightarrow>
      Destroy pp p = (Err (E jobs_plugin_destroy (consumer_not_registered (Driver ppl))), p))
 \<and> (\<forall>ppl d. map_of (pipelines p) pp = Some ppl \<and> consumers p (Name ppl) = Some d \<longrightarrow>
      (let (r, p') = Destroy pp p in
         r = (case fst (Consumer_Stop d (world p)) of None \<Rightarrow> Ok | Some e \<Rightarrow> Err e)
       \<and> consumers p' = (consumers p)(Name ppl := None)
       \<and> map_of (pipelines p') = (map_of (pipelines p))(pp := None)
       \<and> pp \<notin> set (List p')
       \<and> world p' = snd (Consumer_Stop d (world p))
       \<and> Destroy pp p' = (Err (E jobs_plugin_destroy (no_such_pipeline pp)), p')
       \<and> (\<forall>j job. heap (world p') j = Some job \<and> Options_Pipeline job = pp \<longrightarrow>
            Push j p' = (Err (E jobs_plugin_push (no_such_pipeline pp)), p'))))"
proof (intro conjI allI impI)
  assume "map_of (pipelines p) pp = None"
  then show "Destroy pp p = (Err (E jobs_plugin_destroy (no_such_pipeline pp)), p)"
    by (rule Destroy_absent)
next
  fix ppl
  assume "map_of (pipelines p) pp = Some ppl \<and> consumers p (Name ppl) = None"
  then show "Destroy pp p = (Err (E jobs_plugin_destroy (consumer_not_registered (Driver ppl))), p)"
    by (simp add: Destroy_def)
next
  fix ppl d
  assume found: "map_of (pipelines p) pp = Some ppl \<and> consumers p (Name ppl) = Some d"
  define p' where "p' = snd (Destroy pp p)"
  have p': "p' = p\<lparr>consumers := (consumers p)(Name ppl := None),
                   pipelines := AList.delete pp (pipelines p),
                   world := snd (Consumer_Stop d (world p)),
                   journal := journal p @ [Called_Stop (Name ppl)]\<rparr>"
    using found by (simp add: p'_def Destroy_present)
  have r: "fst (Destroy pp p) = (case fst (Consumer_Stop d (world p)) of None \<Rightarrow> Ok | Some e \<Rightarrow> Err e)"
    using found by (simp add: Destroy_present)
  have gone: "map_of (pipelines p') pp = None"
    by (simp add: p' delete_conv')
  have again: "Destroy pp p' = (Err (E jobs_plugin_destroy (no_such_pipeline pp)), p')"
    using gone by (rule Destroy_absent)
  have push: "\<forall>j job. heap (world p') j = Some job \<and> Options_Pipeline job = pp \<longrightarrow>
            Push j p' = (Err (E jobs_plugin_push (no_such_pipeline pp)), p')"
    using gone Push_absent by blast
  have listed: "pp \<notin> set (List p')"
    by (simp add: p' List_def delete_keys)
  have "consumers p' = (consumers p)(Name ppl := None)"
    and "map_of (pipelines p') = (map_of (pipelines p))(pp := None)"
    and "world p' = snd (Consumer_Stop d (world p))"
    by (simp_all add: p' delete_conv')
  with r again push listed
  show "let (r, p') = Destroy pp p in
         r = (case fst (Consumer_Stop d (world p)) of None \<Rightarrow> Ok | Some e \<Rightarrow> Err e)
       \<and> consumers p' = (consumers p)(Name ppl := None)
       \<and> map_of (pipelines p') = (map_of (pipelines p))(pp := None)
       \<and> pp \<notin> set (List p')
       \<and> world p' = snd (Consumer_Stop d (world p))
       \<and> Destroy pp p' = (Err (E jobs_plugin_destroy (no_such_pipeline pp)), p')
       \<and> (\<forall>j job. heap (world p') j = Some job \<and> Options_Pipeline job = pp \<longrightarrow>
            Push j p' = (Err (E jobs_plugin_push (no_such_pipeline pp)), p'))"
    unfolding p'_def by (simp add: case_prod_beta)
qed

theorem Destroy_removes_both_witness:
  "Destroy ''missing'' running = (Err (E jobs_plugin_destroy (no_such_pipeline ''missing'')), running)
 \<and> Destroy ''idle'' running = (Err (E jobs_plugin_destroy (consumer_not_registered ''amqp'')), running)
 \<and> fst (Destroy ''p2'' running) = Err (Foreign ''stop failed'')
 \<and> consumers (snd (Destroy ''p2'' running)) ''p2'' = None
 \<and> List (snd (Destroy ''p2'' running)) = [''p1'', ''idle'']
 \<and> fst (Destroy ''p2'' (snd (Destroy ''p2'' running))) = Err (E jobs_plugin_destroy (no_such_pipeline ''p2''))
 \<and> fst (Push 5 (snd (Destroy ''p2'' running))) = Err (E jobs_plugin_push (no_such_pipeline ''p2''))"
proof -
  have a: "map_of (pipelines running) ''missing'' = None"
    by (simp add: running_def)
  have b: "map_of (pipelines running) ''idle'' = Some pipe_idle \<and> consumers running (Name pipe_idle) = None"
    by (simp add: running_def pipe_idle_def)
  have c: "map_of (pipelines running) ''p2'' = Some pipe_p2 \<and> consumers running (Name pipe_p2) = Some stubborn"
    by (simp add: running_def pipe_p2_def)
  have h: "heap (world (snd (Destroy ''p2'' running))) 5 = Some job_e \<and> Options_Pipeline job_e = ''p2''"
    by (simp add: Destroy_present[where ppl = pipe_p2 and d = stubborn] running_def pipe_p2_def
        fresh_def job_e_def stubborn_def ephemeral_def)
  have l: "List (snd (Destroy ''p2'' running)) = [''p1'', ''idle'']"
    by (simp add: Destroy_present[where ppl = pipe_p2 and d = stubborn] running_def pipe_p2_def List_def)
  from Destroy_removes_both[of running "''missing''"] a
  have 1: "Destroy ''missing'' running = (Err (E jobs_plugin_destroy (no_such_pipeline ''missing'')), running)"
    by blast
  from Destroy_removes_both[of running "''idle''"] b
  have 2: "Destroy ''idle'' running = (Err (E jobs_plugin_destroy (consumer_not_registered ''amqp'')), running)"
    by (auto simp add: pipe_idle_def)
  from Destroy_removes_both[of running "''p2''"] c h
  have 3: "fst (Destroy ''p2'' running) = Err (Foreign ''stop failed'')
     \<and> consumers (snd (Destroy ''p2'' running)) ''p2'' = None
     \<and> fst (Destroy ''p2'' (snd (Destroy ''p2'' running))) = Err (E jobs_plugin_destroy (no_such_pipeline ''p2''))
     \<and> fst (Push 5 (snd (Destroy ''p2'' running))) = Err (E jobs_plugin_push (no_such_pipeline ''p2''))"
    by (auto simp add: case_prod_beta Let_def pipe_p2_def stubborn_def ephemeral_def)
  from 1 2 3 l show ?thesis by simp
qed

subsection \<open>Push\<close>

text \<open>
  Claim C7. \<open>Push\<close> of a job whose pipeline name is absent from the pipeline registry
  returns the "no such pipeline" error, and \<open>Push\<close> of a job whose pipeline is known but
  has no live driver returns the "consumer not registered" error. In both cases the plugin
  is returned as it was: no driver has been called (the journal is the same), and the
  world, with the priority queue and the job itself, is untouched.
\<close>

theorem Push_failed_lookup:
  assumes "heap (world p) j = Some job"
  shows "(map_of (pipelines p) (Options_Pipeline job) = None \<longrightarrow>
            Push j p = (Err (E jobs_plugin_push (no_such_pipeline (Options_Pipeline job))), p))
       \<and> (\<forall>ppl. map_of (pipelines p) (Options_Pipeline job) = Some ppl \<and> consumers p (Name ppl) = None \<longrightarrow>
            Push j p = (Err (E jobs_plugin_push (consumer_not_registered (Driver ppl))), p))"
  using assms by (simp add: Push_def)

theorem Push_failed_lookup_witness:
  "Push 2 running = (Err (E jobs_plugin_push (no_such_pipeline ''missing'')), running)
 \<and> Push 3 running = (Err (E jobs_plugin_push (consumer_not_registered ''amqp'')), running)"
proof -
  have b: "heap (world running) 2 = Some job_b" by (simp add: running_def fresh_def job_b_def job_c_def pipe_idle_def)
  have c: "heap (world running) 3 = Some job_c" by (simp add: running_def fresh_def job_b_def job_c_def pipe_idle_def)
  have nb: "map_of (pipelines running) (Options_Pipeline job_b) = None" by (simp add: running_def fresh_def job_b_def job_c_def pipe_idle_def)
  have nc: "map_of (pipelines running) (Options_Pipeline job_c) = Some pipe_idle \<and> consumers running (Name pipe_idle) = None"
    by (simp add: running_def fresh_def job_b_def job_c_def pipe_idle_def)
  from Push_failed_lookup[OF b] nb Push_failed_lookup[OF c] nc show ?thesis
    by (simp add: job_b_def job_c_def pipe_idle_def)
qed

subsection \<open>Push and PushBatch on a live pipeline\<close>

lemma pushed_append: "pushed (xs @ ys) = pushed xs @ pushed ys"
  by (simp add: pushed_def)

lemma PushBatch_body_Push: "PushBatch_body j p = Push j p"
  by (simp add: PushBatch_body_def Push_def)

lemma PushBatch_append:
  "PushBatch pre p = (Ok, p1) \<Longrightarrow> PushBatch (pre @ js) p = PushBatch js p1"
proof (induction pre arbitrary: p)
  case Nil
  then show ?case by simp
next
  case (Cons a pre)
  then show ?case
    by (cases "PushBatch_body a p") (auto split: ret.splits)
qed

lemma Push_live:
  assumes "heap (world p) j = Some job"
    and "map_of (pipelines p) (Options_Pipeline job) = Some ppl"
    and "consumers p (Name ppl) = Some d"
  shows "Push j p =
    (let job' = job\<lparr>Options_Priority :=
                      (if Options_Priority job = 0 then Priority ppl else Options_Priority job)\<rparr>;
         handed = (world p)\<lparr>heap := (heap (world p))(j \<mapsto> job')\<rparr>
     in (case fst (Consumer_Push d j handed) of
           None \<Rightarrow> Ok
         | Some e \<Rightarrow> Err (E jobs_plugin_push e),
         p\<lparr>world := snd (Consumer_Push d j handed),
           journal := journal p @ [Called_Push (Name ppl) j job']\<rparr>))"
proof (cases "Options_Priority job = 0")
  case True
  with assms show ?thesis
    by (simp add: Push_def record_entry_def Let_def split: prod.splits option.splits)
next
  case False
  have "(heap (world p))(j \<mapsto> job) = heap (world p)"
    using assms(1) by (rule map_upd_triv)
  with False assms show ?thesis
    by (simp add: Push_def record_entry_def Let_def split: prod.splits option.splits)
qed

lemma Push_journal:
  "\<exists>rest. journal (snd (Push j p)) = journal p @ rest"
  by (simp add: Push_def record_entry_def Let_def split: prod.splits option.splits)

lemma PushBatch_journal:
  "\<exists>rest. journal (snd (PushBatch js p)) = journal p @ rest"
proof (induction js arbitrary: p)
  case Nil
  then show ?case by simp
next
  case (Cons a js)
  obtain r p' where step: "Push a p = (r, p')" by (cases "Push a p")
  from Push_journal[of a p] step obtain r1 where r1: "journal p' = journal p @ r1" by auto
  show ?case
  proof (cases r)
    case Ok
    from Cons.IH[of p'] obtain r2 where "journal (snd (PushBatch js p')) = journal p' @ r2" by auto
    with Ok step r1 show ?thesis by (simp add: PushBatch_body_Push)
  next
    case (Err e)
    with step r1 show ?thesis by (simp add: PushBatch_body_Push)
  next
    case (Panic m)
    with step r1 show ?thesis by (simp add: PushBatch_body_Push)
  qed
qed

lemma PushBatch_Cons_Push:
  "PushBatch (j # js) p = (case Push j p of (Ok, p') \<Rightarrow> PushBatch js p' | (r, p') \<Rightarrow> (r, p'))"
  by (simp add: PushBatch_body_Push)

lemma PushBatch_reaches:
  "PushBatch pre p0 = (Ok, p) \<Longrightarrow>
     PushBatch (pre @ j # post) p0 =
       (case Push j p of (Ok, p') \<Rightarrow> PushBatch post p' | (r, p') \<Rightarrow> (r, p'))"
  by (simp only: PushBatch_append PushBatch_Cons_Push)

lemma Push_pushed:
  "Push j p = (r, p') \<Longrightarrow>
     (r = Ok \<longrightarrow> pushed (journal p') = pushed (journal p) @ [j])
   \<and> (pushed (journal p') = pushed (journal p) @ [j] \<or> p' = p)"
  by (auto simp add: Push_def record_entry_def Let_def pushed_def
      split: prod.splits option.splits if_splits)

lemma PushBatch_pushed:
  "PushBatch js p = (Ok, p') \<Longrightarrow> pushed (journal p') = pushed (journal p) @ js"
proof (induction js arbitrary: p)
  case Nil
  then show ?case by simp
next
  case (Cons a js)
  obtain r p1 where step: "Push a p = (r, p1)" by (cases "Push a p")
  with Cons.prems have r: "r = Ok" and rest: "PushBatch js p1 = (Ok, p')"
    by (auto simp add: PushBatch_body_Push split: ret.splits)
  from Push_pushed[OF step] r have "pushed (journal p1) = pushed (journal p) @ [a]" by simp
  with Cons.IH[OF rest] show ?case by simp
qed

lemma PushBatch_4_running: "PushBatch [4] running = (Ok, after_d)"
  by (simp add: PushBatch_body_def record_entry_def after_d_def running_def fresh_def
      pipe_p1_def job_d_def ephemeral_def)

text \<open>
  Claim C4. Let a job be reached by \<open>Push\<close>, or by the loop of \<open>PushBatch\<close> after the
  jobs before it went through, in a plugin where its pipeline is registered and has a live
  driver. The driver's \<open>Push\<close> is then called on a world in which the job carries the
  pipeline's priority if its own was 0 and its own priority otherwise, and that is the job
  the journal shows as handed over; whatever the driver does with it (such as putting it
  into the priority queue) happens after this.
\<close>

theorem Push_resolves_priority:
  assumes "PushBatch pre p0 = (Ok, p)"
    and "heap (world p) j = Some job"
    and "map_of (pipelines p) (Options_Pipeline job) = Some ppl"
    and "consumers p (Name ppl) = Some d"
  shows "(let job' = job\<lparr>Options_Priority :=
                        (if Options_Priority job = 0 then Priority ppl else Options_Priority job)\<rparr>;
              handed = (world p)\<lparr>heap := (heap (world p))(j \<mapsto> job')\<rparr>
          in heap handed j = Some job'
           \<and> world (snd (Push j p)) = snd (Consumer_Push d j handed)
           \<and> fst (Push j p) = (case fst (Consumer_Push d j handed) of
                                  None \<Rightarrow> Ok | Some e \<Rightarrow> Err (E jobs_plugin_push e))
           \<and> journal (snd (Push j p)) = journal p @ [Called_Push (Name ppl) j job']
           \<and> PushBatch (pre @ j # post) p0 =
               (case Push j p of (Ok, p') \<Rightarrow> PushBatch post p' | (r, p') \<Rightarrow> (r, p'))
           \<and> (\<exists>rest. journal (snd (PushBatch (pre @ j # post) p0)) =
                         journal p @ Called_Push (Name ppl) j job' # rest))"
proof -
  define job' where "job' = job\<lparr>Options_Priority :=
                     (if Options_Priority job = 0 then Priority ppl else Options_Priority job)\<rparr>"
  define handed where "handed = (world p)\<lparr>heap := (heap (world p))(j \<mapsto> job')\<rparr>"
  have live: "Push j p =
      (case fst (Consumer_Push d j handed) of None \<Rightarrow> Ok | Some e \<Rightarrow> Err (E jobs_plugin_push e),
       p\<lparr>world := snd (Consumer_Push d j handed),
         journal := journal p @ [Called_Push (Name ppl) j job']\<rparr>)"
    using Push_live[OF assms(2-4)] by (simp add: Let_def job'_def handed_def)
  have one: "journal (snd (Push j p)) = journal p @ [Called_Push (Name ppl) j job']"
    by (simp add: live)
  have batch: "PushBatch (pre @ j # post) p0 =
      (case Push j p of (Ok, p') \<Rightarrow> PushBatch post p' | (r, p') \<Rightarrow> (r, p'))"
    using assms(1) by (rule PushBatch_reaches)
  have "\<exists>rest. journal (snd (PushBatch (pre @ j # post) p0)) =
      journal p @ Called_Push (Name ppl) j job' # rest"
  proof (cases "fst (Push j p)")
    case Ok
    then have "PushBatch (pre @ j # post) p0 = PushBatch post (snd (Push j p))"
      unfolding batch by (cases "Push j p") simp
    with PushBatch_journal[of post "snd (Push j p)"] one show ?thesis by auto
  next
    case (Err e)
    then have "PushBatch (pre @ j # post) p0 = Push j p"
      unfolding batch by (cases "Push j p") simp
    with one show ?thesis by simp
  next
    case (Panic m)
    then have "PushBatch (pre @ j # post) p0 = Push j p"
      unfolding batch by (cases "Push j p") simp
    with one show ?thesis by simp
  qed
  moreover have "heap handed j = Some job'" by (simp add: handed_def)
  moreover have "world (snd (Push j p)) = snd (Consumer_Push d j handed)" by (simp add: live)
  moreover have "fst (Push j p) = (case fst (Consumer_Push d j handed) of
                                  None \<Rightarrow> Ok | Some e \<Rightarrow> Err (E jobs_plugin_push e))"
    by (simp add: live)
  ultimately show ?thesis
    using one batch unfolding Let_def job'_def handed_def by blast
qed

theorem Push_resolves_priority_witness:
  "PushBatch [4] running = (Ok, after_d)
 \<and> heap (world after_d) 1 = Some job_a
 \<and> map_of (pipelines after_d) (Options_Pipeline job_a) = Some pipe_p1
 \<and> consumers after_d (Name pipe_p1) = Some ephemeral
 \<and> Options_Priority job_a = 0 \<and> Priority pipe_p1 = 7
 \<and> journal (snd (Push 1 after_d)) =
      [Called_Push ''p1'' 4 job_d, Called_Push ''p1'' 1 (job_a\<lparr>Options_Priority := 7\<rparr>)]
 \<and> ext (world (snd (Push 1 after_d))) = [job_d, job_a\<lparr>Options_Priority := 7\<rparr>]
 \<and> fst (Push 1 after_d) = Ok"
proof -
  have a: "PushBatch [4] running = (Ok, after_d)" by (rule PushBatch_4_running)
  have b: "heap (world after_d) 1 = Some job_a"
    by (simp add: after_d_def running_def fresh_def)
  have c: "map_of (pipelines after_d) (Options_Pipeline job_a) = Some pipe_p1"
    by (simp add: after_d_def running_def job_a_def)
  have d: "consumers after_d (Name pipe_p1) = Some ephemeral"
    by (simp add: after_d_def running_def pipe_p1_def)
  have e: "Options_Priority job_a = 0 \<and> Priority pipe_p1 = 7"
    by (simp add: job_a_def pipe_p1_def)
  have f: "journal after_d = [Called_Push ''p1'' 4 job_d]" "ext (world after_d) = [job_d]"
    by (simp_all add: after_d_def)
  from Push_resolves_priority[OF a b c d, of "[5]"] a b c d e f show ?thesis
    by (simp add: Let_def ephemeral_def pipe_p1_def del: PushBatch.simps)
qed

text \<open>
  Claim C5. If the jobs \<open>pre\<close> of a batch go through and the next job fails as \<open>Push\<close>
  of it fails in the plugin reached after \<open>pre\<close> (unknown pipeline, no consumer, or an
  error of the driver's \<open>Push\<close>), then \<open>PushBatch\<close> returns that error and the plugin
  that failing step left: the jobs of \<open>pre\<close> were handed to their drivers one by one in
  input order and stay pushed, the failing job was handed over at most once, and the jobs
  after it play no part.
\<close>

theorem PushBatch_first_failure:
  assumes "PushBatch pre p = (Ok, p1)" and "Push bad p1 = (Err e, p2)"
  shows "PushBatch (pre @ bad # post) p = (Err e, p2)
       \<and> pushed (journal p1) = pushed (journal p) @ pre
       \<and> (p2 = p1 \<or> pushed (journal p2) = pushed (journal p) @ pre @ [bad])"
proof -
  have "PushBatch (pre @ bad # post) p = (Err e, p2)"
    using assms by (simp add: PushBatch_reaches)
  moreover have pre: "pushed (journal p1) = pushed (journal p) @ pre"
    using assms(1) by (rule PushBatch_pushed)
  moreover have "p2 = p1 \<or> pushed (journal p2) = pushed (journal p) @ pre @ [bad]"
    using Push_pushed[OF assms(2)] pre by auto
  ultimately show ?thesis by simp
qed

theorem PushBatch_first_failure_witness:
  "PushBatch [4] running = (Ok, after_d)
 \<and> Push 2 after_d = (Err (E jobs_plugin_push (no_such_pipeline ''missing'')), after_d)
 \<and> PushBatch [4, 2, 1] running = (Err (E jobs_plugin_push (no_such_pipeline ''missing'')), after_d)
 \<and> ext (world after_d) = [job_d]
 \<and> pushed (journal after_d) = [4]
 \<and> PushBatch [4, 1] congested =
      (Err (E jobs_plugin_push (Foreign ''queue full'')),
       congested\<lparr>journal := [Called_Push ''p1'' 4 job_d]\<rparr>)"
proof -
  have a: "PushBatch [4] running = (Ok, after_d)" by (rule PushBatch_4_running)
  have b: "Push 2 after_d = (Err (E jobs_plugin_push (no_such_pipeline ''missing'')), after_d)"
    by (simp add: Push_def after_d_def running_def fresh_def job_b_def)
  have c: "pushed (journal running) = []" by (simp add: running_def fresh_def pushed_def)
  have d: "PushBatch [] congested = (Ok, congested)" by simp
  have e: "Push 4 congested =
      (Err (E jobs_plugin_push (Foreign ''queue full'')),
       congested\<lparr>journal := [Called_Push ''p1'' 4 job_d]\<rparr>)"
    by (simp add: Push_def record_entry_def congested_def running_def fresh_def job_d_def
        pipe_p1_def full_def ephemeral_def)
  from PushBatch_first_failure[OF d e, of "[1]"]
  have f: "PushBatch [4, 1] congested =
      (Err (E jobs_plugin_push (Foreign ''queue full'')),
       congested\<lparr>journal := [Called_Push ''p1'' 4 job_d]\<rparr>)"
    by (simp del: PushBatch.simps)
  from PushBatch_first_failure[OF a b, of "[1]"] a b c f show ?thesis
    by (simp add: after_d_def del: PushBatch.simps)
qed

text \<open>
  Claim C10. A job with priority 0 submitted to a pipeline with a live driver is changed
  in place: the driver receives the same pointer, and in the store it is called on the
  object at that pointer has the pipeline's priority and all its other fields as before,
  every other object and the rest of the world being as they were. The caller's store
  after the call is the one the driver left; where the driver does not itself write the
  object, the caller finds the inherited priority in it, after \<open>Push\<close> and after a
  \<open>PushBatch\<close> ending with the job.
\<close>

theorem Push_writes_priority_in_place:
  assumes "PushBatch pre p0 = (Ok, p)"
    and "heap (world p) j = Some job"
    and "map_of (pipelines p) (Options_Pipeline job) = Some ppl"
    and "consumers p (Name ppl) = Some d"
    and "Options_Priority job = 0"
  shows "(let job' = job\<lparr>Options_Priority := Priority ppl\<rparr>;
              handed = (world p)\<lparr>heap := (heap (world p))(j \<mapsto> job')\<rparr>
          in Push j p =
               (case fst (Consumer_Push d j handed) of
                  None \<Rightarrow> Ok | Some e \<Rightarrow> Err (E jobs_plugin_push e),
                p\<lparr>world := snd (Consumer_Push d j handed),
                  journal := journal p @ [Called_Push (Name ppl) j job']\<rparr>)
           \<and> PushBatch (pre @ j # post) p0 =
               (case Push j p of (Ok, p') \<Rightarrow> PushBatch post p' | (r, p') \<Rightarrow> (r, p'))
           \<and> heap handed j = Some job'
           \<and> (\<forall>a. a \<noteq> j \<longrightarrow> heap handed a = heap (world p) a)
           \<and> ext handed = ext (world p)
           \<and> Options_Priority job' = Priority ppl
           \<and> Options_Pipeline job' = Options_Pipeline job
           \<and> Job_Ident job' = Job_Ident job
           \<and> Job_Payload job' = Job_Payload job
           \<and> (heap (snd (Consumer_Push d j handed)) j = heap handed j \<longrightarrow>
                heap (world (snd (Push j p))) j = Some job'
              \<and> heap (world (snd (PushBatch (pre @ [j]) p0))) j = Some job'))"
proof -
  define job' where "job' = job\<lparr>Options_Priority := Priority ppl\<rparr>"
  define handed where "handed = (world p)\<lparr>heap := (heap (world p))(j \<mapsto> job')\<rparr>"
  have live: "Push j p =
      (case fst (Consumer_Push d j handed) of None \<Rightarrow> Ok | Some e \<Rightarrow> Err (E jobs_plugin_push e),
       p\<lparr>world := snd (Consumer_Push d j handed),
         journal := journal p @ [Called_Push (Name ppl) j job']\<rparr>)"
    using Push_live[OF assms(2-4)] assms(5) by (simp add: Let_def job'_def handed_def)
  have batch: "PushBatch (pre @ j # post) p0 =
      (case Push j p of (Ok, p') \<Rightarrow> PushBatch post p' | (r, p') \<Rightarrow> (r, p'))"
    using assms(1) by (rule PushBatch_reaches)
  have last: "PushBatch (pre @ [j]) p0 =
      (case Push j p of (Ok, p') \<Rightarrow> PushBatch [] p' | (r, p') \<Rightarrow> (r, p'))"
    using assms(1) by (rule PushBatch_reaches)
  have same: "snd (PushBatch (pre @ [j]) p0) = snd (Push j p)"
    unfolding last by (cases "Push j p") (simp split: ret.splits)
  have after: "heap (snd (Consumer_Push d j handed)) j = heap handed j \<longrightarrow>
                heap (world (snd (Push j p))) j = Some job'
              \<and> heap (world (snd (PushBatch (pre @ [j]) p0))) j = Some job'"
    unfolding same by (simp add: live handed_def)
  have frame: "heap handed j = Some job'" "\<forall>a. a \<noteq> j \<longrightarrow> heap handed a = heap (world p) a"
    "ext handed = ext (world p)"
    by (simp_all add: handed_def)
  have fields: "Options_Priority job' = Priority ppl" "Options_Pipeline job' = Options_Pipeline job"
    "Job_Ident job' = Job_Ident job" "Job_Payload job' = Job_Payload job"
    by (simp_all add: job'_def)
  from live batch frame fields after show ?thesis
    unfolding Let_def job'_def handed_def by blast
qed

theorem Push_writes_priority_in_place_witness:
  "PushBatch [4] running = (Ok, after_d)
 \<and> heap (world after_d) 1 = Some job_a
 \<and> map_of (pipelines after_d) (Options_Pipeline job_a) = Some pipe_p1
 \<and> consumers after_d (Name pipe_p1) = Some ephemeral
 \<and> Options_Priority job_a = 0 \<and> Priority pipe_p1 = 7
 \<and> heap (world (snd (Push 1 after_d))) 1 = Some (job_a\<lparr>Options_Priority := 7\<rparr>)
 \<and> heap (world (snd (PushBatch [4, 1] running))) 1 = Some (job_a\<lparr>Options_Priority := 7\<rparr>)
 \<and> heap ((world after_d)\<lparr>heap := (heap (world after_d))(1 \<mapsto> job_a\<lparr>Options_Priority := 7\<rparr>)\<rparr>) 4
      = heap (world after_d) 4"
proof -
  have a: "PushBatch [4] running = (Ok, after_d)" by (rule PushBatch_4_running)
  have b: "heap (world after_d) 1 = Some job_a"
    by (simp add: after_d_def running_def fresh_def)
  have c: "map_of (pipelines after_d) (Options_Pipeline job_a) = Some pipe_p1"
    by (simp add: after_d_def running_def job_a_def)
  have d: "consumers after_d (Name pipe_p1) = Some ephemeral"
    by (simp add: after_d_def running_def pipe_p1_def)
  have e: "Options_Priority job_a = 0" "Priority pipe_p1 = 7"
    by (simp_all add: job_a_def pipe_p1_def)
  have f: "heap (snd (Consumer_Push ephemeral 1
              ((world after_d)\<lparr>heap := (heap (world after_d))(1 \<mapsto> job_a\<lparr>Options_Priority := Priority pipe_p1\<rparr>)\<rparr>))) 1
         = heap ((world after_d)\<lparr>heap := (heap (world after_d))(1 \<mapsto> job_a\<lparr>Options_Priority := Priority pipe_p1\<rparr>)\<rparr>) 1"
    by (simp add: ephemeral_def)
  have g: "(4::nat) \<noteq> 1" by simp
  from Push_writes_priority_in_place[OF a b c d e(1), of "[]", unfolded Let_def] f g
  have "heap (world (snd (Push 1 after_d))) 1 = Some (job_a\<lparr>Options_Priority := Priority pipe_p1\<rparr>)
      \<and> heap (world (snd (PushBatch ([4] @ [1]) running))) 1
          = Some (job_a\<lparr>Options_Priority := Priority pipe_p1\<rparr>)
      \<and> heap ((world after_d)\<lparr>heap := (heap (world after_d))(1 \<mapsto> job_a\<lparr>Options_Priority := Priority pipe_p1\<rparr>)\<rparr>) 4
          = heap (world after_d) 4"
    by blast
  with a b c d e show ?thesis
    by (simp del: PushBatch.simps)
qed

subsection \<open>The poller\<close>

lemma acknowledgements_append:
  "acknowledgements (xs @ ys) = acknowledgements xs @ acknowledgements ys"
  by (simp add: acknowledgements_def)

lemma dispatch_pool:
  "workersPool (snd (dispatch job p)) = workersPool p"
  by (simp add: dispatch_def record_entry_def Let_def split: sum.splits option.splits prod.splits)

lemma dispatch_no_context:
  assumes "Item_Context job = Inl err"
  shows "dispatch job p =
    (Ok, p\<lparr>world := snd (Item_Nack job (world p)),
           journal := journal p @ Called_Nack (Item_ID job) #
             (case fst (Item_Nack job (world p)) of
                Some e \<Rightarrow> [Log_Failure ''negatively acknowledge failed'' e]
              | None \<Rightarrow> []) @
             [Log_Failure ''job marshal context'' err]\<rparr>)"
  using assms
  by (simp add: dispatch_def record_entry_def Let_def split: option.splits prod.splits)

lemma dispatch_exec:
  assumes "workersPool p = Some pool" and "Item_Context job = Inr ctx"
  shows "dispatch job p =
    (let exec = \<lparr>Context = ctx, Body = Item_Body job\<rparr>;
         w = snd (Exec pool exec (world p))
     in (Ok,
         case fst (Exec pool exec (world p)) of
           Inl err \<Rightarrow>
             p\<lparr>world := snd (Item_Nack job w),
               journal := journal p @ Called_Exec exec # Called_Nack (Item_ID job) #
                 (case fst (Item_Nack job w) of
                    Some e \<Rightarrow> [Log_Failure ''negatively acknowledge failed'' e]
                  | None \<Rightarrow> []) @
                 [Log_Failure ''job execute'' err]\<rparr>
         | Inr _ \<Rightarrow>
             p\<lparr>world := snd (Item_Ack job w),
               journal := journal p @ Called_Exec exec # Called_Ack (Item_ID job) #
                 (case fst (Item_Ack job w) of
                    Some e \<Rightarrow> [Log_Failure ''acknowledge failed'' e]
                  | None \<Rightarrow> [])\<rparr>))"
  using assms
  by (simp add: dispatch_def record_entry_def Let_def split: sum.splits option.splits prod.splits)

lemma dispatch_once:
  assumes "workersPool p \<noteq> None \<or> isl (Item_Context job)"
  shows "fst (dispatch job p) = Ok
    \<and> acknowledgements (journal (snd (dispatch job p))) = acknowledgements (journal p) @
        [case Item_Context job of
           Inl _ \<Rightarrow> Called_Nack (Item_ID job)
         | Inr ctx \<Rightarrow>
            (case fst (Exec (the (workersPool p)) \<lparr>Context = ctx, Body = Item_Body job\<rparr> (world p)) of
               Inl _ \<Rightarrow> Called_Nack (Item_ID job)
             | Inr _ \<Rightarrow> Called_Ack (Item_ID job))]"
proof (cases "Item_Context job")
  case (Inl err)
  then show ?thesis
    by (simp add: dispatch_no_context acknowledgements_def split: option.splits)
next
  case (Inr ctx)
  with assms obtain pool where pool: "workersPool p = Some pool" by auto
  show ?thesis
    by (simp add: dispatch_exec[OF pool Inr] pool Inr Let_def acknowledgements_def
        split: sum.splits option.splits)
qed

lemma poller_Extracted:
  assumes "workersPool p \<noteq> None \<or> isl (Item_Context job)"
  shows "poller (Extracted job # rounds) p = poller rounds (snd (dispatch job p))"
  using dispatch_once[OF assms] by (cases "dispatch job p") simp

lemma poller_jobs:
  "workersPool p = Some pool \<Longrightarrow>
     fst (poller (map Extracted jobs) p) = Polling
   \<and> length (acknowledgements (journal (snd (poller (map Extracted jobs) p))))
       = length (acknowledgements (journal p)) + length jobs"
proof (induction jobs arbitrary: p)
  case Nil
  then show ?case by simp
next
  case (Cons job jobs)
  have pool: "workersPool (snd (dispatch job p)) = Some pool"
    using Cons.prems by (simp add: dispatch_pool)
  have here: "workersPool p \<noteq> None \<or> isl (Item_Context job)"
    using Cons.prems by simp
  have step: "poller (map Extracted (job # jobs)) p
      = poller (map Extracted jobs) (snd (dispatch job p))"
    by (simp only: list.map poller_Extracted[OF here])
  from Cons.IH[OF pool] dispatch_once[OF here] show ?case
    unfolding step by simp
qed

lemma poller_stop:
  "workersPool p = Some pool \<Longrightarrow>
     fst (poller (map Extracted jobs @ StopSignal # rounds) p) = Stopped"
proof (induction jobs arbitrary: p)
  case Nil
  then show ?case by simp
next
  case (Cons job jobs)
  have pool: "workersPool (snd (dispatch job p)) = Some pool"
    using Cons.prems by (simp add: dispatch_pool)
  have here: "workersPool p \<noteq> None \<or> isl (Item_Context job)"
    using Cons.prems by simp
  have step: "poller (map Extracted (job # jobs) @ StopSignal # rounds) p
    = poller (map Extracted jobs @ StopSignal # rounds) (snd (dispatch job p))"
    by (simp only: list.map append_Cons poller_Extracted[OF here])
  from Cons.IH[OF pool] show ?case unfolding step .
qed

text \<open>
  Claim C8, as the code has it. For a job whose context cannot be resolved, and for a job
  taken while a worker pool is in place, the loop body attempts exactly one
  acknowledgement and ends normally, so that the poller goes on with its next round:
  \<^item> the context fails: \<open>Nack\<close> is called on the world as it was, and the plugin is left
    with the world \<open>Nack\<close> returned;
  \<^item> the executor fails: \<open>Nack\<close> is called on the world the executor left;
  \<^item> the executor succeeds: \<open>Ack\<close> is called on the world the executor left.

  A failing acknowledgement adds a record to the log and nothing else. With a worker pool
  in place the poller is polling again after any number of extracted jobs, one
  acknowledgement per job having been attempted, and only the stop signal ends it.
\<close>

theorem poller_acknowledges_once:
  "(\<forall>err. Item_Context job = Inl err \<longrightarrow>
      dispatch job p =
        (Ok, p\<lparr>world := snd (Item_Nack job (world p)),
               journal := journal p @ Called_Nack (Item_ID job) #
                 (case fst (Item_Nack job (world p)) of
                    Some e \<Rightarrow> [Log_Failure ''negatively acknowledge failed'' e]
                  | None \<Rightarrow> []) @
                 [Log_Failure ''job marshal context'' err]\<rparr>)
      \<and> acknowledgements (journal (snd (dispatch job p)))
          = acknowledgements (journal p) @ [Called_Nack (Item_ID job)]
      \<and> poller (Extracted job # rounds) p = poller rounds (snd (dispatch job p)))
 \<and> (\<forall>pool ctx. workersPool p = Some pool \<and> Item_Context job = Inr ctx \<longrightarrow>
      (let exec = \<lparr>Context = ctx, Body = Item_Body job\<rparr>;
           w = snd (Exec pool exec (world p))
       in dispatch job p =
           (Ok,
            case fst (Exec pool exec (world p)) of
              Inl err \<Rightarrow>
                p\<lparr>world := snd (Item_Nack job w),
                  journal := journal p @ Called_Exec exec # Called_Nack (Item_ID job) #
                    (case fst (Item_Nack job w) of
                       Some e \<Rightarrow> [Log_Failure ''negatively acknowledge failed'' e]
                     | None \<Rightarrow> []) @
                    [Log_Failure ''job execute'' err]\<rparr>
            | Inr _ \<Rightarrow>
                p\<lparr>world := snd (Item_Ack job w),
                  journal := journal p @ Called_Exec exec # Called_Ack (Item_ID job) #
                    (case fst (Item_Ack job w) of
                       Some e \<Rightarrow> [Log_Failure ''acknowledge failed'' e]
                     | None \<Rightarrow> [])\<rparr>)
         \<and> acknowledgements (journal (snd (dispatch job p))) = acknowledgements (journal p) @
             [case fst (Exec pool exec (world p)) of
                Inl _ \<Rightarrow> Called_Nack (Item_ID job)
              | Inr _ \<Rightarrow> Called_Ack (Item_ID job)]
         \<and> poller (Extracted job # rounds) p = poller rounds (snd (dispatch job p))))
 \<and> (\<forall>pool. workersPool p = Some pool \<longrightarrow>
      workersPool (snd (dispatch job p)) = Some pool
      \<and> fst (poller (map Extracted jobs) p) = Polling
      \<and> length (acknowledgements (journal (snd (poller (map Extracted jobs) p))))
           = length (acknowledgements (journal p)) + length jobs
      \<and> fst (poller (map Extracted jobs @ StopSignal # rounds) p) = Stopped)"
proof (intro conjI allI impI)
  fix err
  assume ctx: "Item_Context job = Inl err"
  then have here: "workersPool p \<noteq> None \<or> isl (Item_Context job)" by simp
  show "dispatch job p =
        (Ok, p\<lparr>world := snd (Item_Nack job (world p)),
               journal := journal p @ Called_Nack (Item_ID job) #
                 (case fst (Item_Nack job (world p)) of
                    Some e \<Rightarrow> [Log_Failure ''negatively acknowledge failed'' e]
                  | None \<Rightarrow> []) @
                 [Log_Failure ''job marshal context'' err]\<rparr>)"
    using ctx by (rule dispatch_no_context)
  show "acknowledgements (journal (snd (dispatch job p)))
          = acknowledgements (journal p) @ [Called_Nack (Item_ID job)]"
    using dispatch_once[OF here] ctx by simp
  show "poller (Extracted job # rounds) p = poller rounds (snd (dispatch job p))"
    using here by (rule poller_Extracted)
next
  fix pool ctx
  assume a: "workersPool p = Some pool \<and> Item_Context job = Inr ctx"
  then have pool: "workersPool p = Some pool" and ctx: "Item_Context job = Inr ctx" by simp_all
  have here: "workersPool p \<noteq> None \<or> isl (Item_Context job)" using pool by simp
  have ack: "acknowledgements (journal (snd (dispatch job p))) = acknowledgements (journal p) @
             [case fst (Exec pool \<lparr>Context = ctx, Body = Item_Body job\<rparr> (world p)) of
                Inl _ \<Rightarrow> Called_Nack (Item_ID job)
              | Inr _ \<Rightarrow> Called_Ack (Item_ID job)]"
    using dispatch_once[OF here] pool ctx by simp
  from dispatch_exec[OF pool ctx] ack poller_Extracted[OF here, of rounds]
  show "let exec = \<lparr>Context = ctx, Body = Item_Body job\<rparr>;
           w = snd (Exec pool exec (world p))
       in dispatch job p =
           (Ok,
            case fst (Exec pool exec (world p)) of
              Inl err \<Rightarrow>
                p\<lparr>world := snd (Item_Nack job w),
                  journal := journal p @ Called_Exec exec # Called_Nack (Item_ID job) #
                    (case fst (Item_Nack job w) of
                       Some e \<Rightarrow> [Log_Failure ''negatively acknowledge failed'' e]
                     | None \<Rightarrow> []) @
                    [Log_Failure ''job execute'' err]\<rparr>
            | Inr _ \<Rightarrow>
                p\<lparr>world := snd (Item_Ack job w),
                  journal := journal p @ Called_Exec exec # Called_Ack (Item_ID job) #
                    (case fst (Item_Ack job w) of
                       Some e \<Rightarrow> [Log_Failure ''acknowledge failed'' e]
                     | None \<Rightarrow> [])\<rparr>)
         \<and> acknowledgements (journal (snd (dispatch job p))) = acknowledgements (journal p) @
             [case fst (Exec pool exec (world p)) of
                Inl _ \<Rightarrow> Called_Nack (Item_ID job)
              | Inr _ \<Rightarrow> Called_Ack (Item_ID job)]
         \<and> poller (Extracted job # rounds) p = poller rounds (snd (dispatch job p))"
    unfolding Let_def by blast
next
  fix pool
  assume pool: "workersPool p = Some pool"
  show "workersPool (snd (dispatch job p)) = Some pool"
    using pool by (simp add: dispatch_pool)
  show "fst (poller (map Extracted jobs) p) = Polling"
    using poller_jobs[OF pool] by simp
  show "length (acknowledgements (journal (snd (poller (map Extracted jobs) p))))
           = length (acknowledgements (journal p)) + length jobs"
    using poller_jobs[OF pool] by simp
  show "fst (poller (map Extracted jobs @ StopSignal # rounds) p) = Stopped"
    using pool by (rule poller_stop)
qed

lemma Reset_unsupplied:
  "Reset unsupplied = (Err (E jobs_plugin_reset (Foreign ''no workers'')), stalled)"
  by (simp add: Reset_def record_entry_def Let_def stalled_def unsupplied_def serving_def
      workers_def no_pool_server_def)

lemma stalled_facts:
  "workersPool stalled = None" "ext (world stalled) = [job_d]"
  "acknowledgements (journal stalled) = []"
  by (simp_all add: stalled_def unsupplied_def serving_def after_d_def acknowledgements_def)

lemma serving_facts:
  "workersPool serving = Some workers" "ext (world serving) = [job_d]"
  "heap (world serving) 9 = None" "acknowledgements (journal serving) = []"
  by (simp_all add: serving_def after_d_def running_def fresh_def acknowledgements_def)

theorem poller_acknowledges_once_witness:
  "Item_Context item_no_context = Inl (Foreign ''marshal'') \<and> workersPool stalled = None
 \<and> fst (dispatch item_no_context stalled) = Ok
 \<and> ext (world (snd (dispatch item_no_context stalled))) = [job_d, job_a]
 \<and> acknowledgements (journal (snd (dispatch item_no_context stalled))) = [Called_Nack ''no-context'']
 \<and> workersPool serving = Some workers
 \<and> Item_Context item_ok = Inr ''{}'' \<and> Item_Context item_empty = Inr ''{}''
 \<and> fst (dispatch item_ok serving) = Ok
 \<and> ext (world (snd (dispatch item_ok serving))) = []
 \<and> heap (world (snd (dispatch item_ok serving))) 9 = Some (seen \<lparr>Context = ''{}'', Body = ''work''\<rparr>)
 \<and> journal (snd (dispatch item_ok serving)) = journal serving @
      [Called_Exec \<lparr>Context = ''{}'', Body = ''work''\<rparr>, Called_Ack ''ok'',
       Log_Failure ''acknowledge failed'' (Foreign ''ack lost'')]
 \<and> fst (dispatch item_empty serving) = Ok
 \<and> ext (world (snd (dispatch item_empty serving))) = [job_d, job_e]
 \<and> heap (world (snd (dispatch item_empty serving))) 9 = Some (seen \<lparr>Context = ''{}'', Body = []\<rparr>)
 \<and> journal (snd (dispatch item_empty serving)) = journal serving @
      [Called_Exec \<lparr>Context = ''{}'', Body = []\<rparr>, Called_Nack ''empty'',
       Log_Failure ''negatively acknowledge failed'' (Foreign ''nack lost''),
       Log_Failure ''job execute'' (Foreign ''empty body'')]
 \<and> fst (poller (map Extracted [item_ok, item_no_context, item_empty]) serving) = Polling
 \<and> length (acknowledgements
       (journal (snd (poller (map Extracted [item_ok, item_no_context, item_empty]) serving)))) = 3
 \<and> fst (poller (map Extracted [item_ok, item_empty] @ StopSignal # [Extracted item_ok]) serving)
      = Stopped"
proof -
  have c1: "Item_Context item_no_context = Inl (Foreign ''marshal'')"
    by (simp add: item_no_context_def item_ok_def)
  have c2: "workersPool serving = Some workers \<and> Item_Context item_ok = Inr ''{}''"
    by (simp add: serving_facts item_ok_def)
  have c3: "workersPool serving = Some workers \<and> Item_Context item_empty = Inr ''{}''"
    by (simp add: serving_facts item_empty_def item_ok_def)
  from poller_acknowledges_once[where job = item_no_context and p = stalled] c1
  have a: "dispatch item_no_context stalled =
        (Ok, stalled\<lparr>world := snd (Item_Nack item_no_context (world stalled)),
               journal := journal stalled @ Called_Nack (Item_ID item_no_context) #
                 (case fst (Item_Nack item_no_context (world stalled)) of
                    Some e \<Rightarrow> [Log_Failure ''negatively acknowledge failed'' e]
                  | None \<Rightarrow> []) @
                 [Log_Failure ''job marshal context'' (Foreign ''marshal'')]\<rparr>)"
    by blast
  from poller_acknowledges_once[where job = item_ok and p = serving, unfolded Let_def] c2
  have b: "dispatch item_ok serving =
           (Ok,
            case fst (Exec workers \<lparr>Context = ''{}'', Body = Item_Body item_ok\<rparr> (world serving)) of
              Inl err \<Rightarrow>
                serving\<lparr>world := snd (Item_Nack item_ok
                             (snd (Exec workers \<lparr>Context = ''{}'', Body = Item_Body item_ok\<rparr> (world serving)))),
                  journal := journal serving @
                    Called_Exec \<lparr>Context = ''{}'', Body = Item_Body item_ok\<rparr> # Called_Nack (Item_ID item_ok) #
                    (case fst (Item_Nack item_ok
                             (snd (Exec workers \<lparr>Context = ''{}'', Body = Item_Body item_ok\<rparr> (world serving)))) of
                       Some e \<Rightarrow> [Log_Failure ''negatively acknowledge failed'' e]
                     | None \<Rightarrow> []) @
                    [Log_Failure ''job execute'' err]\<rparr>
            | Inr _ \<Rightarrow>
                serving\<lparr>world := snd (Item_Ack item_ok
                             (snd (Exec workers \<lparr>Context = ''{}'', Body = Item_Body item_ok\<rparr> (world serving)))),
                  journal := journal serving @
                    Called_Exec \<lparr>Context = ''{}'', Body = Item_Body item_ok\<rparr> # Called_Ack (Item_ID item_ok) #
                    (case fst (Item_Ack item_ok
                             (snd (Exec workers \<lparr>Context = ''{}'', Body = Item_Body item_ok\<rparr> (world serving)))) of
                       Some e \<Rightarrow> [Log_Failure ''acknowledge failed'' e]
                     | None \<Rightarrow> [])\<rparr>)"
    by blast
  from poller_acknowledges_once[where job = item_empty and p = serving, unfolded Let_def] c3
  have c: "dispatch item_empty serving =
           (Ok,
            case fst (Exec workers \<lparr>Context = ''{}'', Body = Item_Body item_empty\<rparr> (world serving)) of
              Inl err \<Rightarrow>
                serving\<lparr>world := snd (Item_Nack item_empty
                             (snd (Exec workers \<lparr>Context = ''{}'', Body = Item_Body item_empty\<rparr> (world serving)))),
                  journal := journal serving @
                    Called_Exec \<lparr>Context = ''{}'', Body = Item_Body item_empty\<rparr> # Called_Nack (Item_ID item_empty) #
                    (case fst (Item_Nack item_empty
                             (snd (Exec workers \<lparr>Context = ''{}'', Body = Item_Body item_empty\<rparr> (world serving)))) of
                       Some e \<Rightarrow> [Log_Failure ''negatively acknowledge failed'' e]
                     | None \<Rightarrow> []) @
                    [Log_Failure ''job execute'' err]\<rparr>
            | Inr _ \<Rightarrow>
                serving\<lparr>world := snd (Item_Ack item_empty
                             (snd (Exec workers \<lparr>Context = ''{}'', Body = Item_Body item_empty\<rparr> (world serving)))),
                  journal := journal serving @
                    Called_Exec \<lparr>Context = ''{}'', Body = Item_Body item_empty\<rparr> # Called_Ack (Item_ID item_empty) #
                    (case fst (Item_Ack item_empty
                             (snd (Exec workers \<lparr>Context = ''{}'', Body = Item_Body item_empty\<rparr> (world serving)))) of
                       Some e \<Rightarrow> [Log_Failure ''acknowledge failed'' e]
                     | None \<Rightarrow> [])\<rparr>)"
    by blast
  from poller_acknowledges_once[where job = item_ok and p = serving
      and jobs = "[item_ok, item_no_context, item_empty]"]
    serving_facts(1)
  have d: "fst (poller (map Extracted [item_ok, item_no_context, item_empty]) serving) = Polling
     \<and> length (acknowledgements
          (journal (snd (poller (map Extracted [item_ok, item_no_context, item_empty]) serving))))
        = length (acknowledgements (journal serving)) + length [item_ok, item_no_context, item_empty]"
    by blast
  from poller_acknowledges_once[where job = item_ok and p = serving
      and jobs = "[item_ok, item_empty]" and rounds = "[Extracted item_ok]"]
    serving_facts(1)
  have e: "fst (poller (map Extracted [item_ok, item_empty] @ StopSignal # [Extracted item_ok]) serving)
      = Stopped"
    by blast
  have a': "fst (dispatch item_no_context stalled) = Ok"
    "ext (world (snd (dispatch item_no_context stalled))) = [job_d, job_a]"
    "acknowledgements (journal (snd (dispatch item_no_context stalled))) = [Called_Nack ''no-context'']"
    unfolding a
    by (simp_all add: stalled_facts acknowledgements_append item_no_context_def item_ok_def
        acknowledgements_def[of "_ # _"])
  have b': "fst (dispatch item_ok serving) = Ok"
    "ext (world (snd (dispatch item_ok serving))) = []"
    "heap (world (snd (dispatch item_ok serving))) 9 = Some (seen \<lparr>Context = ''{}'', Body = ''work''\<rparr>)"
    "journal (snd (dispatch item_ok serving)) = journal serving @
      [Called_Exec \<lparr>Context = ''{}'', Body = ''work''\<rparr>, Called_Ack ''ok'',
       Log_Failure ''acknowledge failed'' (Foreign ''ack lost'')]"
    unfolding b
    by (simp_all add: serving_facts item_ok_def workers_def)
  have c': "fst (dispatch item_empty serving) = Ok"
    "ext (world (snd (dispatch item_empty serving))) = [job_d, job_e]"
    "heap (world (snd (dispatch item_empty serving))) 9 = Some (seen \<lparr>Context = ''{}'', Body = []\<rparr>)"
    "journal (snd (dispatch item_empty serving)) = journal serving @
      [Called_Exec \<lparr>Context = ''{}'', Body = []\<rparr>, Called_Nack ''empty'',
       Log_Failure ''negatively acknowledge failed'' (Foreign ''nack lost''),
       Log_Failure ''job execute'' (Foreign ''empty body'')]"
    unfolding c
    by (simp_all add: serving_facts item_empty_def item_ok_def workers_def)
  from d have d': "fst (poller (map Extracted [item_ok, item_no_context, item_empty]) serving) = Polling
     \<and> length (acknowledgements
          (journal (snd (poller (map Extracted [item_ok, item_no_context, item_empty]) serving)))) = 3"
    by (simp add: serving_facts del: poller.simps list.map)
  from c1 c2 c3 stalled_facts(1) a' b' c' d' e show ?thesis
    by (simp del: poller.simps list.map append.simps)
qed

text \<open>
  The claim without the condition on the worker pool fails. A \<open>Reset\<close> for which the
  server cannot supply a new pool returns its error and leaves the plugin without pool
  while the pollers run on. The next job whose context resolves makes the poller call
  \<open>Exec\<close> on the nil pool: it panics, the job gets neither \<open>Ack\<close> nor \<open>Nack\<close>,
  and the poller has ended.
\<close>

theorem poller_acknowledges_once_counterexample:
  "Reset unsupplied = (Err (E jobs_plugin_reset (Foreign ''no workers'')), stalled)
 \<and> pollers stalled = 2
 \<and> dispatch item_ok stalled = (Panic nil_dereference, stalled)
 \<and> poller [Extracted item_ok, Extracted item_no_context] stalled = (Crashed nil_dereference, stalled)
 \<and> acknowledgements (journal stalled) = []"
  by (simp add: Reset_unsupplied stalled_facts dispatch_def item_ok_def)
     (simp add: stalled_def unsupplied_def serving_def)

subsection \<open>Serve\<close>

text \<open>
  The walk never waits on the channel, which is empty when it starts, and ends with at
  most one error in it, wrapped with the operation; the entry that fails is the last one
  visited; a pipeline without a registered constructor is passed over with the event
  "driver ready". \<open>Serve\<close> fails to return exactly when the walk has left an error in the
  channel and the worker pool cannot be created either.
\<close>

lemma register_initial_first_send:
  "\<exists>b p' ch. register_initial kv (p, []) = Some (b, p', ch)
      \<and> (if b then ch = [] else \<exists>e. ch = [E jobs_plugin_serve e])"
  by (cases kv)
     (auto simp add: register_initial_def send_def Let_def split: prod.splits option.splits sum.splits)

lemma Range_register_initial:
  "\<exists>p' ch. Range register_initial kvs (p, []) = Some (p', ch)
      \<and> (ch = [] \<or> (\<exists>e. ch = [E jobs_plugin_serve e]))"
proof (induction kvs arbitrary: p)
  case Nil
  then show ?case by simp
next
  case (Cons kv kvs)
  from register_initial_first_send[of kv p] obtain b p' ch
    where step: "register_initial kv (p, []) = Some (b, p', ch)"
      and ch: "if b then ch = [] else \<exists>e. ch = [E jobs_plugin_serve e]"
    by blast
  show ?case
  proof (cases b)
    case True
    with step ch Cons.IH[of p'] show ?thesis by simp
  next
    case False
    with step ch show ?thesis by simp
  qed
qed

lemma Range_stops:
  "register_initial kv (p, []) = Some (False, p', ch) \<Longrightarrow>
     Range register_initial (kv # rest) (p, []) = Some (p', ch)"
  by simp

lemma Serve_blocks_iff:
  "Serve p = None \<longleftrightarrow>
     (\<exists>p1 e e'. Range register_initial (pipelines p) (p, []) = Some (p1, [e])
        \<and> fst (NewWorkerPool (server p1) (world p1)) = Inl e')"
proof -
  from Range_register_initial[of "pipelines p" p] obtain p1 ch
    where walk: "Range register_initial (pipelines p) (p, []) = Some (p1, ch)"
      and ch: "ch = [] \<or> (\<exists>e. ch = [E jobs_plugin_serve e])"
    by blast
  show ?thesis
    using ch
    by (auto simp add: Serve_def walk send_def Let_def split: prod.splits sum.splits)
qed

lemma register_initial_unregistered:
  "jobConstructors p (Driver pipe) = None \<Longrightarrow>
     register_initial (name, pipe) (p, errCh) =
       Some (True, record_entry (Events_Push EventDriverReady (Name pipe) (Driver pipe)) p, errCh)"
  by (simp add: register_initial_def)

text \<open>
  Claim C9 at a failing input. The configuration holds, in this order, a pipeline without
  registered constructor, one whose constructor fails and one that could be built. When
  the worker pool can be created, \<open>Serve\<close> returns the channel holding the constructor's
  error; the first pipeline got its "driver ready" event and the third was never visited.
  When the creation of the worker pool fails as well, the second send finds the buffer of
  the channel full: \<open>Serve\<close> never returns, and the first error reaches nobody.
\<close>

theorem Serve_blocks_on_second_error:
  "Serve (startup\<lparr>server := no_pool_server\<rparr>) = None
 \<and> Serve startup =
     Some ([E jobs_plugin_serve (Foreign ''no broker'')],
           startup\<lparr>workersPool := Some workers, pollers := 2,
                     journal := [Events_Push EventDriverReady ''lazy'' ''amqp'',
                                 Called_JobsConstruct ''broken'' ''jobs.pipelines.p4'',
                                 Called_NewWorkerPool]\<rparr>)"
  by (simp add: Serve_def register_initial_def send_def record_entry_def Let_def
      PluginName_def pipelines_key_def startup_def fresh_def pipe_lazy_def pipe_p4_def pipe_p1_def
      broken_constructor_def no_pool_server_def pool_server_def)

end
